theory Spec2Isabelle
  imports Main "HOL-Library.AList"
begin

section \<open>JavaScript values, objects and errors\<close>

text \<open>
  The service is TypeScript over dynamically shaped entities: \<open>update\<close> assigns
  \<open>salesChannel[key] = data[key]\<close> for run-time keys. Entities and inputs are therefore
  modelled as JavaScript objects: ordered lists of own properties. Strings are lists of
  code units below 256.
\<close>

datatype jsval = Undefined | Null | Boolean bool | Str string | Date nat

type_synonym object = "(string \<times> jsval) list"

text \<open>\<open>obj[key]\<close>: a missing property reads as \<open>undefined\<close>.\<close>

definition get :: "object \<Rightarrow> string \<Rightarrow> jsval" where
  "get obj key = (case map_of obj key of None \<Rightarrow> Undefined | Some v \<Rightarrow> v)"

text \<open>\<open>obj[key] = v\<close>: an existing property keeps its place, a new one is appended.\<close>

definition set_property :: "object \<Rightarrow> string \<Rightarrow> jsval \<Rightarrow> object" where
  "set_property obj key v = AList.update key v obj"

definition Object_keys :: "object \<Rightarrow> string list" where
  "Object_keys obj = map fst obj"

text \<open>The truthiness test of \<open>if (v)\<close> and \<open>!v\<close>.\<close>

fun truthy :: "jsval \<Rightarrow> bool" where
  "truthy Undefined = False"
| "truthy Null = False"
| "truthy (Boolean b) = b"
| "truthy (Str s) = (s \<noteq> [])"
| "truthy (Date t) = True"

text \<open>\<open>Array.prototype.findIndex\<close>: the first index satisfying the predicate, else \<open>-1\<close>.\<close>

fun findIndex :: "('a \<Rightarrow> bool) \<Rightarrow> 'a list \<Rightarrow> int" where
  "findIndex P [] = - 1"
| "findIndex P (x # xs) =
     (if P x then 0 else (let i = findIndex P xs in if i = - 1 then - 1 else i + 1))"

text \<open>\<open>Array.prototype.join\<close> on an array of strings.\<close>

fun join :: "string list \<Rightarrow> string \<Rightarrow> string" where
  "join [] sep = []"
| "join [x] sep = x"
| "join (x # y # ys) sep = x @ sep @ join (y # ys) sep"

text \<open>
  \<open>JSON.stringify\<close> on a string: the text between double quotes, with the quote, the
  backslash and the control characters escaped.
\<close>

definition hex_digit :: "nat \<Rightarrow> char" where
  "hex_digit n = ''0123456789abcdef'' ! (n mod 16)"

definition json_escape :: "char \<Rightarrow> string" where
  "json_escape c =
     (if c = CHR 0x22 then [CHR 0x5C, CHR 0x22]
      else if c = CHR 0x5C then [CHR 0x5C, CHR 0x5C]
      else if c = CHR 0x08 then [CHR 0x5C, CHR ''b'']
      else if c = CHR 0x0C then [CHR 0x5C, CHR ''f'']
      else if c = CHR 0x0A then [CHR 0x5C, CHR ''n'']
      else if c = CHR 0x0D then [CHR 0x5C, CHR ''r'']
      else if c = CHR 0x09 then [CHR 0x5C, CHR ''t'']
      else if of_char c < (32 :: nat)
        then [CHR 0x5C, CHR ''u'', CHR ''0'', CHR ''0'',
              hex_digit (of_char c div 16), hex_digit (of_char c mod 16)]
      else [c])"

definition JSON_stringify :: "string \<Rightarrow> string" where
  "JSON_stringify s = CHR 0x22 # concat (map json_escape s) @ [CHR 0x22]"

text \<open>
  Errors as values. \<open>MedusaError\<close> carries its type and message; a storage error carries
  the \<open>code\<close> the driver reports; any other rejection is a plain \<open>Error\<close> with a message.
\<close>

datatype MedusaError_Types = NOT_FOUND

datatype error =
    MedusaError MedusaError_Types string
  | QueryFailedError string
  | Error string

text \<open>\<open>error.code\<close>, as the error handler of \<open>addProducts\<close> reads it.\<close>

fun code :: "error \<Rightarrow> jsval" where
  "code (QueryFailedError c) = Str c"
| "code (MedusaError t m) = Undefined"
| "code (Error m) = Undefined"

text \<open>
  Modelled from the spec: \<open>PostgresError.FOREIGN_KEY_ERROR\<close> lives in
  \<open>utils/exception-formatter\<close>, which is not part of the sources at hand. It is the code
  of the store's foreign-key-violation signal (section 7); PostgreSQL's is 23503.
\<close>

definition FOREIGN_KEY_ERROR :: string where
  "FOREIGN_KEY_ERROR = ''23503''"

definition Events_UPDATED :: string where "Events_UPDATED = ''sales_channel.updated''"
definition Events_CREATED :: string where "Events_CREATED = ''sales_channel.created''"
definition Events_DELETED :: string where "Events_DELETED = ''sales_channel.deleted''"

section \<open>The relational store and the world around the service\<close>

text \<open>
  The tables the service touches: channels, products, the join relation, the single
  Store row's default-channel pointer, and the events staged by the event bus inside the
  current transaction.
\<close>

record database =
  sales_channel :: "object list"
  product :: "object list"
  product_sales_channel :: "(string \<times> string) list"
  store :: jsval
  staged_events :: "(string \<times> jsval) list"

text \<open>Every call that leaves the process, in program order.\<close>

datatype call =
    FindOne string
  | Save object
  | SoftRemove object
  | Insert "(string \<times> string) list"
  | Emit string jsval
  | StoreRetrieve
  | StoreUpdate jsval
  | ProductList "string list"

text \<open>
  The world: the store; whether this service instance already runs inside a unit of work
  (the source's \<open>transactionManager_\<close> is set); the log of external calls and the log of
  errors raised, both in program order; a schedule of failures of the infrastructure
  (entry \<open>k\<close> decides the \<open>k\<close>-th external call from now: \<open>Some e\<close> makes it reject with
  \<open>e\<close>; an exhausted schedule means no more failures); the identifiers the entity id
  generator yields; the clock.
\<close>

record world =
  db :: database
  transactionManager :: bool
  calls :: "call list"
  raised :: "error list"
  faults :: "error option list"
  id_source :: "nat \<Rightarrow> string"
  id_count :: nat
  clock :: nat

type_synonym 'a promise = "world \<Rightarrow> (error + 'a) \<times> world"

definition resolve :: "'a \<Rightarrow> 'a promise" where
  "resolve x w = (Inr x, w)"

text \<open>\<open>throw e\<close>: the error is raised here.\<close>

definition reject :: "error \<Rightarrow> 'a promise" where
  "reject e w = (Inl e, w\<lparr>raised := raised w @ [e]\<rparr>)"

text \<open>\<open>const x = await p; k(x)\<close>: a rejection of \<open>p\<close> skips the continuation.\<close>

definition await :: "'a promise \<Rightarrow> ('a \<Rightarrow> 'b promise) \<Rightarrow> 'b promise" where
  "await p k w = (case p w of (Inl e, w') \<Rightarrow> (Inl e, w') | (Inr x, w') \<Rightarrow> k x w')"

text \<open>\<open>p.catch(() => void 0)\<close>: any rejection becomes the value \<open>undefined\<close>.\<close>

definition catch_void :: "'a promise \<Rightarrow> 'a option promise" where
  "catch_void p w = (case p w of (Inl e, w') \<Rightarrow> (Inr None, w') | (Inr x, w') \<Rightarrow> (Inr (Some x), w'))"

text \<open>
  An external call: it is logged, the failure schedule decides whether the infrastructure
  fails, and otherwise the statement runs against the store.
\<close>

definition run :: "(database \<Rightarrow> (error + 'a) \<times> database) \<Rightarrow> 'a promise" where
  "run stmt w =
     (case stmt (db w) of
        (Inl e, d) \<Rightarrow> (Inl e, w\<lparr>db := d, raised := raised w @ [e]\<rparr>)
      | (Inr x, d) \<Rightarrow> (Inr x, w\<lparr>db := d\<rparr>))"

definition io :: "call \<Rightarrow> (database \<Rightarrow> (error + 'a) \<times> database) \<Rightarrow> 'a promise" where
  "io c stmt w =
     (case faults w of
        Some e # rest \<Rightarrow>
          (Inl e, w\<lparr>calls := calls w @ [c], faults := rest, raised := raised w @ [e]\<rparr>)
      | None # rest \<Rightarrow> run stmt (w\<lparr>calls := calls w @ [c], faults := rest\<rparr>)
      | [] \<Rightarrow> run stmt (w\<lparr>calls := calls w @ [c]\<rparr>))"

subsection \<open>The unit of work\<close>

text \<open>
  \<open>atomicPhase_\<close> is inherited from \<open>TransactionBaseService\<close> (\<open>../interfaces\<close>), which is
  not part of the sources at hand. The names \<open>atomicPhase\<close> and \<open>transactionManager\<close> drop
  the source's trailing underscore.
\<close>

text \<open>
  Modelled from the spec: opening the unit of work of \<open>atomicPhase_\<close>, which is missing
  from the sources. Section 9: the wrapper opens a transaction and passes a
  transaction-scoped handle into the closure.
\<close>

definition begin_work :: "world \<Rightarrow> world" where
  "begin_work w = w\<lparr>transactionManager := True\<rparr>"

text \<open>
  Modelled from the spec: the commit of \<open>atomicPhase_\<close>, which is missing from the sources.
  Sections 4.2 and 9: if the body completes, its writes and staged events stay; a call
  made inside an enclosing unit of work leaves that unit open.
\<close>

definition commit :: "world \<Rightarrow> world \<Rightarrow> world" where
  "commit w w' = w'\<lparr>transactionManager := transactionManager w\<rparr>"

text \<open>
  Modelled from the spec: the rollback of \<open>atomicPhase_\<close>, which is missing from the
  sources. Sections 4.2 and 5: each top-level operation is one atomic unit of work; if
  its body raises, the store is as it was when the unit began. A call made inside an
  enclosing unit of work leaves the rollback to that unit.
\<close>

definition rollback :: "world \<Rightarrow> world \<Rightarrow> world" where
  "rollback w w' =
     (if transactionManager w then w' else w'\<lparr>db := db w, transactionManager := False\<rparr>)"

text \<open>
  Modelled from the spec: the re-raise of \<open>atomicPhase_\<close>, which is missing from the
  sources. Section 9: the error is re-raised, optionally through a supplied
  error-translation hook; what the hook raises replaces the error.
\<close>

definition rethrow :: "(error \<Rightarrow> 'a promise) option \<Rightarrow> error \<Rightarrow> 'a promise" where
  "rethrow errorHandler err w =
     (case errorHandler of
        None \<Rightarrow> (Inl err, w)
      | Some handler \<Rightarrow>
          (case handler err w of (Inl e', w') \<Rightarrow> (Inl e', w') | (Inr x, w') \<Rightarrow> (Inl err, w')))"

text \<open>
  Modelled from the spec: \<open>atomicPhase_(work, errorHandler)\<close>, which is missing from the
  sources. Sections 4.2 and 9: a function that takes a unit-of-work closure, opens a
  transaction, commits on success, rolls back and re-raises (optionally through a
  supplied error-translation hook) on failure.
\<close>

definition atomicPhase :: "'a promise \<Rightarrow> (error \<Rightarrow> 'a promise) option \<Rightarrow> 'a promise" where
  "atomicPhase work errorHandler w =
     (case work (begin_work w) of
        (Inr result, w') \<Rightarrow> (Inr result, commit w w')
      | (Inl err, w') \<Rightarrow> rethrow errorHandler err (rollback w w'))"

subsection \<open>The collaborators\<close>

text \<open>
  Modelled from the spec: the soft-delete filter of the generic query builder
  (\<open>buildQuery\<close> and the ORM), which is missing from the sources. Sections 3 and 8: a
  channel is soft-deleted by a soft-delete timestamp, and a soft-deleted channel is not
  found.
\<close>

definition soft_deleted :: "object \<Rightarrow> bool" where
  "soft_deleted row = (case get row ''deleted_at'' of Undefined \<Rightarrow> False | Null \<Rightarrow> False | _ \<Rightarrow> True)"

text \<open>
  Modelled from the spec: \<open>salesChannelRepo.findOne(buildQuery({ id }, config))\<close>; the ORM
  repository and \<open>buildQuery\<close> are missing from the sources. Section 4.2: the channel
  matching the id, unless it is absent or soft-deleted.
\<close>

definition salesChannelRepo_findOne :: "string \<Rightarrow> object option promise" where
  "salesChannelRepo_findOne salesChannelId =
     io (FindOne salesChannelId)
        (\<lambda>d. (Inr (find (\<lambda>row. get row ''id'' = Str salesChannelId \<and> \<not> soft_deleted row)
                         (sales_channel d)), d))"

text \<open>
  Modelled from the spec: \<open>salesChannelRepo.create(data)\<close>; the ORM repository and the
  entity class are missing from the sources. Section 4.2: a new channel is made from the
  given fields. Instantiating the entity copies the given fields and writes nothing.
\<close>

definition salesChannelRepo_create :: "object \<Rightarrow> object promise" where
  "salesChannelRepo_create data = resolve data"

text \<open>
  Modelled from the spec: the row write behind \<open>salesChannelRepo.save\<close>, which is missing
  from the sources. Section 3: a channel has an identity; saving replaces the row of that
  id, or adds the row when there is none.
\<close>

definition upsert :: "object \<Rightarrow> object list \<Rightarrow> object list" where
  "upsert entity rows =
     (if get entity ''id'' \<in> set (map (\<lambda>row. get row ''id'') rows)
      then map (\<lambda>row. if get row ''id'' = get entity ''id'' then entity else row) rows
      else rows @ [entity])"

text \<open>
  Modelled from the spec: the identity of a saved channel; the entity class and the id
  generator are missing from the sources. Section 3: a channel has an identity (id). The
  source reads the id of a channel only off what \<open>save\<close> returned (\<open>result.id\<close> in \<open>update\<close>,
  \<open>defaultSalesChannel.id\<close> in \<open>createDefault\<close>), and nothing says that an entity has
  one before it is saved: an entity without id gets the next generated id when it is
  saved, and one that has an id keeps it.
\<close>

definition with_identity :: "object \<Rightarrow> world \<Rightarrow> object" where
  "with_identity entity w =
     (if get entity ''id'' = Undefined
      then set_property entity ''id'' (Str (id_source w (id_count w))) else entity)"

text \<open>
  Modelled from the spec: \<open>salesChannelRepo.save(entity)\<close>, which is missing from the
  sources. Section 4.2: it persists the channel and returns the saved channel.
\<close>

definition salesChannelRepo_save :: "object \<Rightarrow> object promise" where
  "salesChannelRepo_save entity w =
     io (Save entity)
        (\<lambda>d. (Inr (with_identity entity w),
               d\<lparr>sales_channel := upsert (with_identity entity w) (sales_channel d)\<rparr>))
        (if get entity ''id'' = Undefined then w\<lparr>id_count := Suc (id_count w)\<rparr> else w)"

text \<open>
  Modelled from the spec: \<open>salesChannelRepo.softRemove(entity)\<close>, which is missing from
  the sources. Section 3: the channel is marked removed, not physically erased.
\<close>

definition salesChannelRepo_softRemove :: "object \<Rightarrow> unit promise" where
  "salesChannelRepo_softRemove entity w =
     io (SoftRemove entity)
        (\<lambda>d. (Inr (), d\<lparr>sales_channel :=
                 map (\<lambda>row. if get row ''id'' = get entity ''id''
                             then set_property row ''deleted_at'' (Date (clock w)) else row)
                     (sales_channel d)\<rparr>)) w"

text \<open>
  Modelled from the spec: \<open>eventBusService_.withTransaction(manager).emit(name, { id })\<close>;
  the event bus (\<open>./event-bus\<close>) is missing from the sources. Sections 6 and 9: an event
  is a fixed name with the payload \<open>{ id }\<close>, emitted within the transaction, so that it
  is durable only if the transaction commits.
\<close>

definition eventBusService_emit :: "string \<Rightarrow> jsval \<Rightarrow> unit promise" where
  "eventBusService_emit eventName payload_id =
     io (Emit eventName payload_id)
        (\<lambda>d. (Inr (), d\<lparr>staged_events := staged_events d @ [(eventName, payload_id)]\<rparr>))"

text \<open>
  The Store as \<open>createDefault\<close> reads it: the pointer and the loaded relation (\<open>None\<close> is a
  relation that loaded nothing).
\<close>

record Store =
  default_sales_channel_id :: jsval
  default_sales_channel :: "object option"

text \<open>
  Modelled from the spec: \<open>storeService_.retrieve({ relations: ["default_sales_channel"] })\<close>;
  the store service (\<open>./store\<close>) is missing from the sources. Sections 3 and 4.2: the
  Store references its default channel by id, and the relation is the channel of that id.
\<close>

definition storeService_retrieve :: "Store promise" where
  "storeService_retrieve =
     io StoreRetrieve
        (\<lambda>d. (Inr \<lparr>default_sales_channel_id = store d,
                    default_sales_channel = find (\<lambda>row. get row ''id'' = store d) (sales_channel d)\<rparr>,
               d))"

text \<open>
  Modelled from the spec: \<open>storeService_.update({ default_sales_channel_id })\<close>; the store
  service is missing from the sources. Section 4.2: it sets the channel as the Store's
  default.
\<close>

definition storeService_update :: "jsval \<Rightarrow> unit promise" where
  "storeService_update new_default_sales_channel_id =
     io (StoreUpdate new_default_sales_channel_id)
        (\<lambda>d. (Inr (), d\<lparr>store := new_default_sales_channel_id\<rparr>))"

text \<open>
  Modelled from the spec: \<open>productService_.list({ id: productIds })\<close>; the product service
  (\<open>./product\<close>) is missing from the sources. Sections 2 and 4.2: the Product Lookup is
  queried for the requested ids and answers with the products that exist.
\<close>

definition productService_list :: "string list \<Rightarrow> object list promise" where
  "productService_list ids =
     io (ProductList ids)
        (\<lambda>d. (Inr (filter (\<lambda>p. get p ''id'' \<in> set (map Str ids)) (product d)), d))"

text \<open>
  Modelled from the spec: the insert-ignore of the relational engine behind \<open>.orIgnore()\<close>,
  which is missing from the sources. Section 4.1: one row per pair is inserted; a row
  whose pair already exists is silently skipped, also when the same statement has just
  inserted it.
\<close>

fun insert_orIgnore :: "(string \<times> string) list \<Rightarrow> (string \<times> string) list \<Rightarrow> (string \<times> string) list" where
  "insert_orIgnore table [] = table"
| "insert_orIgnore table (row # rows) =
     insert_orIgnore (if row \<in> set table then table else table @ [row]) rows"

text \<open>
  Modelled from the spec: the referential integrity the store enforces, which is missing
  from the sources. Section 3: channel id and product id must each reference an existing,
  non-deleted row in their owning tables (a product is an identity only).
\<close>

definition references_ok :: "database \<Rightarrow> string \<times> string \<Rightarrow> bool" where
  "references_ok d row =
     (find (\<lambda>c. get c ''id'' = Str (fst row) \<and> \<not> soft_deleted c) (sales_channel d) \<noteq> None
      \<and> Str (snd row) \<in> set (map (\<lambda>p. get p ''id'') (product d)))"

text \<open>
  Modelled from the spec: \<open>.insert().into("product_sales_channel").values(rows).orIgnore().execute()\<close>;
  the query builder and the engine are missing from the sources. Section 4.1: an empty
  sequence is a no-op; if a referenced product id or the channel id does not exist, the
  store raises the foreign-key violation (and the statement inserts nothing); otherwise
  the rows are inserted, existing pairs skipped.
\<close>

definition execute_insert :: "(string \<times> string) list \<Rightarrow> unit promise" where
  "execute_insert rows =
     (if rows = [] then resolve ()
      else io (Insert rows)
        (\<lambda>d. if list_all (references_ok d) rows
              then (Inr (), d\<lparr>product_sales_channel := insert_orIgnore (product_sales_channel d) rows\<rparr>)
              else (Inl (QueryFailedError FOREIGN_KEY_ERROR), d)))"

section \<open>The repository\<close>

text \<open>\<open>SalesChannelRepository.addProducts\<close>: one \<open>(sales_channel_id, product_id)\<close> row per id.\<close>

definition SalesChannelRepository_addProducts :: "string \<Rightarrow> string list \<Rightarrow> unit promise" where
  "SalesChannelRepository_addProducts salesChannelId productIds =
     execute_insert (map (\<lambda>i. (salesChannelId, i)) productIds)"

section \<open>The service\<close>

text \<open>
  \<open>retrieve\<close> is modelled at its default \<open>config = {}\<close>, which is how every operation of
  the service calls it.
\<close>

definition retrieve :: "string \<Rightarrow> object promise" where
  "retrieve salesChannelId =
     atomicPhase
       (await (salesChannelRepo_findOne salesChannelId) (\<lambda>salesChannel.
          case salesChannel of
            None \<Rightarrow> reject (MedusaError NOT_FOUND
                      (''Sales channel with id '' @ salesChannelId @ '' was not found''))
          | Some found \<Rightarrow> resolve found))
       None"

definition create :: "object \<Rightarrow> object promise" where
  "create data =
     atomicPhase
       (await (salesChannelRepo_create data) (\<lambda>salesChannel.
        await (eventBusService_emit Events_CREATED (get salesChannel ''id'')) (\<lambda>_.
        salesChannelRepo_save salesChannel)))
       None"

definition update :: "string \<Rightarrow> object \<Rightarrow> object promise" where
  "update salesChannelId data =
     atomicPhase
       (await (retrieve salesChannelId) (\<lambda>salesChannel.
        await (salesChannelRepo_save
                 (fold (\<lambda>key sc. if get data key \<noteq> Undefined
                                  then set_property sc key (get data key) else sc)
                       (Object_keys data) salesChannel)) (\<lambda>result.
        await (eventBusService_emit Events_UPDATED (get result ''id'')) (\<lambda>_.
        resolve result))))
       None"

definition delete :: "string \<Rightarrow> unit promise" where
  "delete salesChannelId =
     atomicPhase
       (await (catch_void (retrieve salesChannelId)) (\<lambda>salesChannel.
          case salesChannel of
            None \<Rightarrow> resolve ()
          | Some found \<Rightarrow>
              await (salesChannelRepo_softRemove found) (\<lambda>_.
              await (eventBusService_emit Events_DELETED (Str salesChannelId)) (\<lambda>_.
              resolve ()))))
       None"

definition createDefault :: "object option promise" where
  "createDefault =
     atomicPhase
       (await storeService_retrieve (\<lambda>store.
          if truthy (default_sales_channel_id store) then resolve (default_sales_channel store)
          else
            await (create [(''description'', Str ''Created by Medusa''),
                           (''name'', Str ''Default Sales Channel''),
                           (''is_disabled'', Boolean False)]) (\<lambda>defaultSalesChannel.
            await (storeService_update (get defaultSalesChannel ''id'')) (\<lambda>_.
            resolve (Some defaultSalesChannel)))))
       None"

text \<open>
  \<open>formatException\<close> (\<open>utils/exception-formatter\<close>) is not part of the sources at hand; it
  is a parameter of \<open>addProducts\<close>.
\<close>

definition addProducts_errorHandler :: "(error \<Rightarrow> error) \<Rightarrow> string list \<Rightarrow> error \<Rightarrow> object promise" where
  "addProducts_errorHandler formatException productIds err =
     (if code err = Str FOREIGN_KEY_ERROR then
        await (productService_list productIds) (\<lambda>existingProducts.
          reject (MedusaError NOT_FOUND
            (''The following product ids do not exist: '' @
             JSON_stringify
               (join (filter (\<lambda>cId. findIndex (\<lambda>el. get el ''id'' = Str cId) existingProducts = - 1)
                             productIds)
                     '', ''))))
      else reject (formatException err))"

definition addProducts :: "(error \<Rightarrow> error) \<Rightarrow> string \<Rightarrow> string list \<Rightarrow> object promise" where
  "addProducts formatException salesChannelId productIds =
     atomicPhase
       (await (SalesChannelRepository_addProducts salesChannelId productIds) (\<lambda>_.
        retrieve salesChannelId))
       (Some (addProducts_errorHandler formatException productIds))"

section \<open>A concrete world\<close>

text \<open>
  One channel, three products, no association, no default channel, nothing staged; the
  service is called from outside any unit of work and the infrastructure does not fail.
  In \<open>faulty_world\<close> the first external call loses its connection to the store.
\<close>

definition example_db :: database where
  "example_db =
     \<lparr>sales_channel =
        [[(''id'', Str ''sc_1''), (''name'', Str ''Web shop''), (''description'', Null),
          (''is_disabled'', Boolean False), (''deleted_at'', Null)]],
      product = [[(''id'', Str ''prod_1'')], [(''id'', Str ''prod_2'')], [(''id'', Str ''prod_3'')]],
      product_sales_channel = [],
      store = Null,
      staged_events = []\<rparr>"

definition example_world :: world where
  "example_world =
     \<lparr>db = example_db, transactionManager = False, calls = [], raised = [], faults = [],
      id_source = (\<lambda>n. ''sc_2'' @ replicate n (CHR ''0'')), id_count = 0, clock = 7\<rparr>"

definition faulty_world :: world where
  "faulty_world = example_world\<lparr>faults := [Some (QueryFailedError ''08006'')]\<rparr>"

text \<open>A formatting step that leaves every error as it is.\<close>

definition no_formatting :: "error \<Rightarrow> error" where
  "no_formatting err = err"

section \<open>Basic facts\<close>

lemmas promise_defs = resolve_def reject_def await_def catch_void_def run_def io_def
  rethrow_def atomicPhase_def begin_work_def commit_def rollback_def

lemmas collaborator_defs = salesChannelRepo_findOne_def salesChannelRepo_create_def
  salesChannelRepo_save_def with_identity_def salesChannelRepo_softRemove_def
  eventBusService_emit_def
  storeService_retrieve_def storeService_update_def productService_list_def execute_insert_def

lemmas example_defs = example_world_def example_db_def faulty_world_def no_formatting_def

lemma get_set_property: "get (set_property obj k v) k' = (if k' = k then v else get obj k')"
  by (simp add: get_def set_property_def update_conv')

lemma findIndex_ge: "- 1 \<le> findIndex P xs"
  by (induction xs) (auto simp: Let_def)

lemma findIndex_none: "findIndex P xs = - 1 \<longleftrightarrow> (\<forall>x\<in>set xs. \<not> P x)"
proof (induction xs)
  case Nil
  then show ?case by simp
next
  case (Cons x xs)
  have "- 1 \<le> findIndex P xs" by (rule findIndex_ge)
  with Cons show ?case by (auto simp: Let_def)
qed

lemma JSON_stringify_empty: "JSON_stringify [] = [CHR 0x22, CHR 0x22]"
  by (simp add: JSON_stringify_def)

lemma JSON_stringify_plain:
  "JSON_stringify ''does-not-exist'' = CHR 0x22 # ''does-not-exist'' @ [CHR 0x22]"
  by (simp add: JSON_stringify_def json_escape_def)

section \<open>The association store\<close>

lemma set_insert_orIgnore: "set (insert_orIgnore t rows) = set t \<union> set rows"
  by (induction rows arbitrary: t) auto

lemma distinct_insert_orIgnore: "distinct t \<Longrightarrow> distinct (insert_orIgnore t rows)"
  by (induction rows arbitrary: t) auto

lemma insert_orIgnore_absorb: "set rows \<subseteq> set t \<Longrightarrow> insert_orIgnore t rows = t"
  by (induction rows arbitrary: t) auto

lemma count_list_distinct: "distinct xs \<Longrightarrow> x \<in> set xs \<Longrightarrow> count_list xs x = 1"
  by (induction xs) auto

text \<open>
  C9. For every non-empty channel id, the bulk insert of the association store called
  with an empty sequence of product ids succeeds as a no-op: it raises no error and
  leaves the association relation and all other state unchanged.
\<close>

theorem addAssociations_empty_noop:
  "salesChannelId \<noteq> [] \<Longrightarrow> SalesChannelRepository_addProducts salesChannelId [] w = (Inr (), w)"
  by (simp add: SalesChannelRepository_addProducts_def execute_insert_def resolve_def)

theorem addAssociations_empty_noop_witness:
  "''sc_1'' \<noteq> [] \<and> SalesChannelRepository_addProducts ''sc_1'' [] example_world = (Inr (), example_world)"
  using addAssociations_empty_noop [of "''sc_1''" example_world] by simp

section \<open>Adding products: the recovery from a foreign-key violation\<close>

lemma nonExistingProducts_eq:
  "filter (\<lambda>cId. findIndex (\<lambda>el. get el ''id'' = Str cId) existingProducts = - 1) productIds
   = filter (\<lambda>cId. Str cId \<notin> set (map (\<lambda>el. get el ''id'') existingProducts)) productIds"
  by (rule filter_cong) (force simp: findIndex_none)+

lemma addProducts_insert_rejected:
  assumes "SalesChannelRepository_addProducts salesChannelId productIds (begin_work w) = (Inl err, w1)"
  shows "addProducts formatException salesChannelId productIds w
         = rethrow (Some (addProducts_errorHandler formatException productIds)) err (rollback w w1)"
  using assms by (simp add: addProducts_def atomicPhase_def await_def)

lemma errorHandler_foreign_key:
  assumes "code err = Str FOREIGN_KEY_ERROR"
    and "productService_list productIds w = (Inr existingProducts, w2)"
  shows "rethrow (Some (addProducts_errorHandler formatException productIds)) err w
         = reject (MedusaError NOT_FOUND
             (''The following product ids do not exist: '' @
              JSON_stringify
                (join (filter (\<lambda>cId. Str cId \<notin> set (map (\<lambda>el. get el ''id'') existingProducts))
                              productIds) '', ''))) w2"
  using assms
  by (simp add: addProducts_errorHandler_def rethrow_def await_def reject_def nonExistingProducts_eq)

lemma productService_list_calls:
  "productService_list productIds w = (r, w2) \<Longrightarrow> calls w2 = calls w @ [ProductList productIds]"
  by (auto simp: productService_list_def io_def run_def split: list.splits option.splits)

text \<open>
  C1. Whenever the bulk insert of \<open>addProducts(channelId, productIds)\<close> fails with a
  foreign-key violation, the service does not propagate the raw storage error: after the
  rollback it queries the Product Lookup for all of the requested ids, and fails with a
  NotFound error whose message enumerates exactly the requested ids that are not among
  the lookup results. The witness is the case of the spec: a valid channel and the ids
  \<open>[validId, "does-not-exist"]\<close> give a NotFound whose message lists \<open>"does-not-exist"\<close>.
\<close>

theorem addProducts_foreign_key_not_found:
  assumes "SalesChannelRepository_addProducts salesChannelId productIds (begin_work w) = (Inl err, w1)"
    and "code err = Str FOREIGN_KEY_ERROR"
    and "productService_list productIds (rollback w w1) = (Inr existingProducts, w2)"
  shows "fst (addProducts formatException salesChannelId productIds w)
         = Inl (MedusaError NOT_FOUND
             (''The following product ids do not exist: '' @
              JSON_stringify
                (join (filter (\<lambda>cId. Str cId \<notin> set (map (\<lambda>el. get el ''id'') existingProducts))
                              productIds) '', '')))
       \<and> calls (snd (addProducts formatException salesChannelId productIds w))
         = calls w1 @ [ProductList productIds]"
proof -
  have "calls w2 = calls (rollback w w1) @ [ProductList productIds]"
    using assms(3) by (rule productService_list_calls)
  then have "calls w2 = calls w1 @ [ProductList productIds]"
    by (simp add: rollback_def)
  then show ?thesis
    using addProducts_insert_rejected [OF assms(1)] errorHandler_foreign_key [OF assms(2,3)]
    by (simp add: reject_def)
qed

theorem addProducts_foreign_key_not_found_witness:
  "fst (addProducts no_formatting ''sc_1'' [''prod_1'', ''does-not-exist''] example_world)
   = Inl (MedusaError NOT_FOUND
       (''The following product ids do not exist: '' @ CHR 0x22 # ''does-not-exist'' @ [CHR 0x22]))
   \<and> calls (snd (addProducts no_formatting ''sc_1'' [''prod_1'', ''does-not-exist''] example_world))
     = [Insert [(''sc_1'', ''prod_1''), (''sc_1'', ''does-not-exist'')],
        ProductList [''prod_1'', ''does-not-exist'']]"
proof -
  let ?w1 = "example_world\<lparr>transactionManager := True,
       calls := [Insert [(''sc_1'', ''prod_1''), (''sc_1'', ''does-not-exist'')]],
       raised := [QueryFailedError FOREIGN_KEY_ERROR]\<rparr>"
  let ?w2 = "example_world\<lparr>
       calls := [Insert [(''sc_1'', ''prod_1''), (''sc_1'', ''does-not-exist'')],
                 ProductList [''prod_1'', ''does-not-exist'']],
       raised := [QueryFailedError FOREIGN_KEY_ERROR]\<rparr>"
  have h1: "SalesChannelRepository_addProducts ''sc_1'' [''prod_1'', ''does-not-exist'']
              (begin_work example_world)
            = (Inl (QueryFailedError FOREIGN_KEY_ERROR), ?w1)"
    by (simp add: SalesChannelRepository_addProducts_def execute_insert_def io_def run_def
        begin_work_def example_defs references_ok_def get_def soft_deleted_def)
  have h2: "code (QueryFailedError FOREIGN_KEY_ERROR) = Str FOREIGN_KEY_ERROR" by simp
  have h3: "productService_list [''prod_1'', ''does-not-exist''] (rollback example_world ?w1)
            = (Inr [[(''id'', Str ''prod_1'')]], ?w2)"
    by (simp add: productService_list_def io_def run_def rollback_def example_defs get_def)
  show ?thesis
    using addProducts_foreign_key_not_found [OF h1 h2 h3, of no_formatting]
    by (simp add: get_def JSON_stringify_plain)
qed

text \<open>
  C4, as amended. When the bulk insert of \<open>addProducts\<close> fails with a foreign-key
  violation and every requested product id is among the results of the Product Lookup
  (the violation stems from the channel id), the underlying error is still replaced by
  the product-oriented NotFound error; its message enumerates no id:
  \<open>The following product ids do not exist: ""\<close>.
\<close>

theorem addProducts_foreign_key_all_products_exist:
  assumes "SalesChannelRepository_addProducts salesChannelId productIds (begin_work w) = (Inl err, w1)"
    and "code err = Str FOREIGN_KEY_ERROR"
    and "productService_list productIds (rollback w w1) = (Inr existingProducts, w2)"
    and "\<forall>cId \<in> set productIds. Str cId \<in> set (map (\<lambda>el. get el ''id'') existingProducts)"
  shows "fst (addProducts formatException salesChannelId productIds w)
         = Inl (MedusaError NOT_FOUND
             (''The following product ids do not exist: '' @ [CHR 0x22, CHR 0x22]))"
proof -
  have "filter (\<lambda>cId. Str cId \<notin> set (map (\<lambda>el. get el ''id'') existingProducts)) productIds = []"
    using assms(4) by (simp add: filter_empty_conv)
  then show ?thesis
    using addProducts_insert_rejected [OF assms(1)] errorHandler_foreign_key [OF assms(2,3)]
    by (simp add: reject_def JSON_stringify_empty)
qed

theorem addProducts_foreign_key_all_products_exist_witness:
  "fst (addProducts no_formatting ''sc_missing'' [''prod_1'', ''prod_2''] example_world)
   = Inl (MedusaError NOT_FOUND
       (''The following product ids do not exist: '' @ [CHR 0x22, CHR 0x22]))"
proof -
  let ?rows = "[(''sc_missing'', ''prod_1''), (''sc_missing'', ''prod_2'')]"
  let ?w1 = "example_world\<lparr>transactionManager := True, calls := [Insert ?rows],
       raised := [QueryFailedError FOREIGN_KEY_ERROR]\<rparr>"
  let ?w2 = "example_world\<lparr>calls := [Insert ?rows, ProductList [''prod_1'', ''prod_2'']],
       raised := [QueryFailedError FOREIGN_KEY_ERROR]\<rparr>"
  have h1: "SalesChannelRepository_addProducts ''sc_missing'' [''prod_1'', ''prod_2'']
              (begin_work example_world)
            = (Inl (QueryFailedError FOREIGN_KEY_ERROR), ?w1)"
    by (simp add: SalesChannelRepository_addProducts_def execute_insert_def io_def run_def
        begin_work_def example_defs references_ok_def get_def soft_deleted_def)
  have h2: "code (QueryFailedError FOREIGN_KEY_ERROR) = Str FOREIGN_KEY_ERROR" by simp
  have h3: "productService_list [''prod_1'', ''prod_2''] (rollback example_world ?w1)
            = (Inr [[(''id'', Str ''prod_1'')], [(''id'', Str ''prod_2'')]], ?w2)"
    by (simp add: productService_list_def io_def run_def rollback_def example_defs get_def)
  have h4: "\<forall>cId \<in> set [''prod_1'', ''prod_2''].
              Str cId \<in> set (map (\<lambda>el. get el ''id'')
                                 [[(''id'', Str ''prod_1'')], [(''id'', Str ''prod_2'')]])"
    by (simp add: get_def)
  show ?thesis
    using addProducts_foreign_key_all_products_exist [OF h1 h2 h3 h4, of no_formatting] by simp
qed

text \<open>
  C4 as stated fails: the channel \<open>sc_missing\<close> does not exist and the product \<open>prod_1\<close>
  does; the insert fails with the foreign-key violation, the lookup finds the product,
  and the caller gets the NotFound error, not the underlying one.
\<close>

theorem addProducts_channel_violation_counterexample:
  "fst (SalesChannelRepository_addProducts ''sc_missing'' [''prod_1''] (begin_work example_world))
     = Inl (QueryFailedError FOREIGN_KEY_ERROR)
   \<and> fst (productService_list [''prod_1'']
            (rollback example_world
               (snd (SalesChannelRepository_addProducts ''sc_missing'' [''prod_1'']
                       (begin_work example_world)))))
     = Inr [[(''id'', Str ''prod_1'')]]
   \<and> fst (addProducts no_formatting ''sc_missing'' [''prod_1''] example_world)
     = Inl (MedusaError NOT_FOUND
         (''The following product ids do not exist: '' @ [CHR 0x22, CHR 0x22]))
   \<and> fst (addProducts no_formatting ''sc_missing'' [''prod_1''] example_world)
     \<noteq> Inl (QueryFailedError FOREIGN_KEY_ERROR)"
  by (simp add: addProducts_def addProducts_errorHandler_def SalesChannelRepository_addProducts_def
      retrieve_def promise_defs collaborator_defs example_defs
      references_ok_def get_def soft_deleted_def FOREIGN_KEY_ERROR_def JSON_stringify_def)

section \<open>Adding products: insert-ignore\<close>

lemma addProducts_ok:
  assumes "faults w = []"
    and "find (\<lambda>row. get row ''id'' = Str c \<and> \<not> soft_deleted row) (sales_channel (db w)) = Some ch"
    and "\<forall>p \<in> set A. Str p \<in> set (map (\<lambda>row. get row ''id'') (product (db w)))"
  shows "\<exists>w'. addProducts formatException c A w = (Inr ch, w')
           \<and> faults w' = []
           \<and> db w' = (db w)\<lparr>product_sales_channel :=
                 insert_orIgnore (product_sales_channel (db w)) (map (\<lambda>i. (c, i)) A)\<rparr>"
proof -
  have "list_all (references_ok (db w)) (map (\<lambda>i. (c, i)) A)"
    using assms(2,3) by (simp add: list_all_iff references_ok_def)
  then show ?thesis
    using assms(1,2)
    by (simp add: addProducts_def SalesChannelRepository_addProducts_def retrieve_def
        promise_defs collaborator_defs)
qed

text \<open>
  C2. \<open>addProducts\<close> is idempotent, with insert-ignore semantics. For a channel that
  exists and product ids that exist (and an infrastructure that does not fail), adding
  the ids \<open>A\<close> twice in a row succeeds both times, the second call adds no row, and every
  pair \<open>(channelId, p)\<close> with \<open>p\<close> in \<open>A\<close> has exactly one association row; adding \<open>A\<close> and
  then \<open>B\<close> leaves the relation with the pairs it had and those of \<open>A \<union> B\<close>, without
  duplicates.
\<close>

theorem addProducts_insert_ignore_idempotent:
  assumes "faults w = []"
    and "find (\<lambda>row. get row ''id'' = Str c \<and> \<not> soft_deleted row) (sales_channel (db w)) = Some ch"
    and "\<forall>p \<in> set A \<union> set B. Str p \<in> set (map (\<lambda>row. get row ''id'') (product (db w)))"
    and "distinct (product_sales_channel (db w))"
  shows "\<exists>w1 w2 w3.
           addProducts formatException c A w = (Inr ch, w1)
         \<and> addProducts formatException c A w1 = (Inr ch, w2)
         \<and> product_sales_channel (db w2) = product_sales_channel (db w1)
         \<and> (\<forall>p \<in> set A. count_list (product_sales_channel (db w2)) (c, p) = 1)
         \<and> addProducts formatException c B w1 = (Inr ch, w3)
         \<and> set (product_sales_channel (db w3))
             = set (product_sales_channel (db w)) \<union> {c} \<times> (set A \<union> set B)
         \<and> distinct (product_sales_channel (db w3))"
proof -
  let ?t = "product_sales_channel (db w)"
  let ?rows = "\<lambda>X. map (\<lambda>i. (c, i)) X"
  from assms(3) have prodA: "\<forall>p \<in> set A. Str p \<in> set (map (\<lambda>row. get row ''id'') (product (db w)))"
    and prodB: "\<forall>p \<in> set B. Str p \<in> set (map (\<lambda>row. get row ''id'') (product (db w)))"
    by auto
  obtain w1 where w1: "addProducts formatException c A w = (Inr ch, w1)" "faults w1 = []"
    "db w1 = (db w)\<lparr>product_sales_channel := insert_orIgnore ?t (?rows A)\<rparr>"
    using addProducts_ok [OF assms(1,2) prodA] by blast
  have ch1: "find (\<lambda>row. get row ''id'' = Str c \<and> \<not> soft_deleted row) (sales_channel (db w1)) = Some ch"
    using assms(2) w1(3) by simp
  have prodA1: "\<forall>p \<in> set A. Str p \<in> set (map (\<lambda>row. get row ''id'') (product (db w1)))"
    using prodA w1(3) by simp
  have prodB1: "\<forall>p \<in> set B. Str p \<in> set (map (\<lambda>row. get row ''id'') (product (db w1)))"
    using prodB w1(3) by simp
  obtain w2 where w2: "addProducts formatException c A w1 = (Inr ch, w2)"
    "db w2 = (db w1)\<lparr>product_sales_channel :=
        insert_orIgnore (product_sales_channel (db w1)) (?rows A)\<rparr>"
    using addProducts_ok [OF w1(2) ch1 prodA1] by blast
  obtain w3 where w3: "addProducts formatException c B w1 = (Inr ch, w3)"
    "db w3 = (db w1)\<lparr>product_sales_channel :=
        insert_orIgnore (product_sales_channel (db w1)) (?rows B)\<rparr>"
    using addProducts_ok [OF w1(2) ch1 prodB1] by blast
  have t1: "product_sales_channel (db w1) = insert_orIgnore ?t (?rows A)"
    using w1(3) by simp
  have same: "product_sales_channel (db w2) = product_sales_channel (db w1)"
    using w2(2) t1 by (simp add: insert_orIgnore_absorb set_insert_orIgnore)
  have d1: "distinct (product_sales_channel (db w1))"
    using assms(4) t1 by (simp add: distinct_insert_orIgnore)
  have once: "\<forall>p \<in> set A. count_list (product_sales_channel (db w2)) (c, p) = 1"
  proof
    fix p assume "p \<in> set A"
    then have "(c, p) \<in> set (product_sales_channel (db w1))"
      using t1 by (simp add: set_insert_orIgnore)
    with d1 show "count_list (product_sales_channel (db w2)) (c, p) = 1"
      using same by (simp add: count_list_distinct)
  qed
  have t3: "product_sales_channel (db w3) = insert_orIgnore (insert_orIgnore ?t (?rows A)) (?rows B)"
    using w3(2) t1 by simp
  have union: "set (product_sales_channel (db w3)) = set ?t \<union> {c} \<times> (set A \<union> set B)"
    unfolding t3 by (auto simp: set_insert_orIgnore)
  have d3: "distinct (product_sales_channel (db w3))"
    unfolding t3 using assms(4) by (simp add: distinct_insert_orIgnore)
  show ?thesis
    using w1(1) w2(1) w3(1) same once union d3 by blast
qed

theorem addProducts_insert_ignore_idempotent_witness:
  "(\<exists>w1 w2 w3.
      addProducts no_formatting ''sc_1'' [''prod_1'', ''prod_2''] example_world
        = (Inr (hd (sales_channel example_db)), w1)
    \<and> addProducts no_formatting ''sc_1'' [''prod_1'', ''prod_2''] w1
        = (Inr (hd (sales_channel example_db)), w2)
    \<and> product_sales_channel (db w2) = [(''sc_1'', ''prod_1''), (''sc_1'', ''prod_2'')]
    \<and> count_list (product_sales_channel (db w2)) (''sc_1'', ''prod_1'') = 1
    \<and> count_list (product_sales_channel (db w2)) (''sc_1'', ''prod_2'') = 1
    \<and> addProducts no_formatting ''sc_1'' [''prod_2'', ''prod_3''] w1
        = (Inr (hd (sales_channel example_db)), w3)
    \<and> set (product_sales_channel (db w3))
        = {(''sc_1'', ''prod_1''), (''sc_1'', ''prod_2''), (''sc_1'', ''prod_3'')}
    \<and> distinct (product_sales_channel (db w3)))"
proof -
  have h1: "faults example_world = []" by (simp add: example_defs)
  have h2: "find (\<lambda>row. get row ''id'' = Str ''sc_1'' \<and> \<not> soft_deleted row)
              (sales_channel (db example_world)) = Some (hd (sales_channel example_db))"
    by (simp add: example_defs get_def soft_deleted_def)
  have h3: "\<forall>p \<in> set [''prod_1'', ''prod_2''] \<union> set [''prod_2'', ''prod_3''].
              Str p \<in> set (map (\<lambda>row. get row ''id'') (product (db example_world)))"
    by (simp add: example_defs get_def)
  have h4: "distinct (product_sales_channel (db example_world))" by (simp add: example_defs)
  have first: "product_sales_channel
                 (db (snd (addProducts no_formatting ''sc_1'' [''prod_1'', ''prod_2''] example_world)))
               = [(''sc_1'', ''prod_1''), (''sc_1'', ''prod_2'')]"
    by (simp add: addProducts_def SalesChannelRepository_addProducts_def retrieve_def
        promise_defs collaborator_defs example_defs references_ok_def get_def soft_deleted_def)
  have empty: "product_sales_channel (db example_world) = []" by (simp add: example_defs)
  from addProducts_insert_ignore_idempotent [OF h1 h2 h3 h4, of no_formatting]
  obtain w1 w2 w3 where
    r: "addProducts no_formatting ''sc_1'' [''prod_1'', ''prod_2''] example_world
          = (Inr (hd (sales_channel example_db)), w1)"
       "addProducts no_formatting ''sc_1'' [''prod_1'', ''prod_2''] w1
          = (Inr (hd (sales_channel example_db)), w2)"
       "product_sales_channel (db w2) = product_sales_channel (db w1)"
       "\<forall>p \<in> set [''prod_1'', ''prod_2'']. count_list (product_sales_channel (db w2)) (''sc_1'', p) = 1"
       "addProducts no_formatting ''sc_1'' [''prod_2'', ''prod_3''] w1
          = (Inr (hd (sales_channel example_db)), w3)"
       "set (product_sales_channel (db w3))
          = set (product_sales_channel (db example_world))
            \<union> {''sc_1''} \<times> (set [''prod_1'', ''prod_2''] \<union> set [''prod_2'', ''prod_3''])"
       "distinct (product_sales_channel (db w3))"
    by blast
  from r(1) first have t1: "product_sales_channel (db w1) = [(''sc_1'', ''prod_1''), (''sc_1'', ''prod_2'')]"
    by simp
  from r(6) empty have s3: "set (product_sales_channel (db w3))
        = {(''sc_1'', ''prod_1''), (''sc_1'', ''prod_2''), (''sc_1'', ''prod_3'')}"
    by auto
  from r(4) have c1: "count_list (product_sales_channel (db w2)) (''sc_1'', ''prod_1'') = 1"
    and c2: "count_list (product_sales_channel (db w2)) (''sc_1'', ''prod_2'') = 1"
    by simp_all
  from r(1,2,5,7) r(3) t1 s3 c1 c2 show ?thesis
    by (intro exI [of _ w1] exI [of _ w2] exI [of _ w3]) simp
qed


section \<open>Creating a channel\<close>

text \<open>
  What \<open>create\<close> does for an input that carries no id: the entity is instantiated from the
  given fields, the event is emitted with the id the entity has at that moment, which is
  none, and the save gives the channel its id. Whenever \<open>create\<close> returns, the row and
  the event are both there, and whenever it fails, neither is. (The call comes from
  outside any unit of work and the id generator yields an id no row has.)
\<close>

lemma create_effects:
  assumes "\<not> transactionManager w"
    and "Str (id_source w (id_count w)) \<notin> set (map (\<lambda>row. get row ''id'') (sales_channel (db w)))"
    and "get data ''id'' = Undefined"
  shows "(faults w = [] \<longrightarrow>
          (\<exists>w'. create data w = (Inr (set_property data ''id'' (Str (id_source w (id_count w)))), w')
             \<and> calls w' = calls w @ [Emit ''sales_channel.created'' Undefined, Save data]))
     \<and> (\<forall>r w'. create data w = (Inr r, w') \<longrightarrow>
          r = set_property data ''id'' (Str (id_source w (id_count w)))
          \<and> sales_channel (db w') = sales_channel (db w) @ [r]
          \<and> staged_events (db w') = staged_events (db w) @ [(''sales_channel.created'', Undefined)])
     \<and> (\<forall>e w'. create data w = (Inl e, w') \<longrightarrow> db w' = db w)"
proof -
  let ?saved = "set_property data ''id'' (Str (id_source w (id_count w)))"
  have ok: "faults w = [] \<longrightarrow>
          (\<exists>w'. create data w = (Inr ?saved, w')
             \<and> calls w' = calls w @ [Emit ''sales_channel.created'' Undefined, Save data])"
    using assms(3)
    by (simp add: create_def promise_defs collaborator_defs Events_CREATED_def)
  have both: "\<forall>r w'. create data w = (Inr r, w') \<longrightarrow>
          r = ?saved \<and> sales_channel (db w') = sales_channel (db w) @ [r]
          \<and> staged_events (db w') = staged_events (db w) @ [(''sales_channel.created'', Undefined)]"
    using assms
    by (auto simp add: create_def promise_defs collaborator_defs Events_CREATED_def upsert_def
        get_set_property split: list.splits option.splits)
  have none: "\<forall>e w'. create data w = (Inl e, w') \<longrightarrow> db w' = db w"
    using assms(1,3)
    by (auto simp add: create_def promise_defs collaborator_defs split: list.splits option.splits)
  from ok both none show ?thesis by blast
qed

text \<open>
  C3. The claim: for every input, \<open>create(input)\<close> persists a new channel from the given
  fields, emits a \<open>sales_channel.created\<close> event whose payload carries the id of the newly
  created channel, and returns the saved channel, the emission coming before the save.
  The code reads \<open>salesChannel.id\<close> off the entity it has just instantiated, before the
  save that gives the channel its id (\<open>update\<close>, the sibling path, emits after its save,
  with \<open>result.id\<close>). For the input \<open>{ name: "B2B", description: "Wholesale" }\<close> the channel
  is saved and returned with the id \<open>sc_2\<close>, and the event that was emitted before the
  save carries \<open>undefined\<close>, not that id.
\<close>

theorem create_event_lacks_new_id:
  "fst (create [(''name'', Str ''B2B''), (''description'', Str ''Wholesale'')] example_world)
     = Inr [(''name'', Str ''B2B''), (''description'', Str ''Wholesale''), (''id'', Str ''sc_2'')]
   \<and> sales_channel (db (snd (create [(''name'', Str ''B2B''), (''description'', Str ''Wholesale'')]
                                 example_world)))
     = sales_channel example_db
       @ [[(''name'', Str ''B2B''), (''description'', Str ''Wholesale''), (''id'', Str ''sc_2'')]]
   \<and> staged_events (db (snd (create [(''name'', Str ''B2B''), (''description'', Str ''Wholesale'')]
                                 example_world)))
     = [(''sales_channel.created'', Undefined)]
   \<and> calls (snd (create [(''name'', Str ''B2B''), (''description'', Str ''Wholesale'')] example_world))
     = [Emit ''sales_channel.created'' Undefined,
        Save [(''name'', Str ''B2B''), (''description'', Str ''Wholesale'')]]"
  by (simp add: create_def promise_defs collaborator_defs example_defs Events_CREATED_def
      upsert_def set_property_def get_def)

section \<open>Updating a channel\<close>

lemma fold_assign:
  "get (fold (\<lambda>key sc. if get data key \<noteq> Undefined then set_property sc key (get data key) else sc)
          ks sc) k
   = (if k \<in> set ks \<and> get data k \<noteq> Undefined then get data k else get sc k)"
  by (induction ks arbitrary: sc) (auto simp: get_set_property)

lemma get_absent_key: "k \<notin> set (Object_keys data) \<Longrightarrow> get data k = Undefined"
  by (auto simp: get_def Object_keys_def map_of_eq_None_iff[symmetric] split: option.splits)

lemma update_loop:
  "get (fold (\<lambda>key sc. if get data key \<noteq> Undefined then set_property sc key (get data key) else sc)
          (Object_keys data) sc) k
   = (if get data k = Undefined then get sc k else get data k)"
  using get_absent_key [of k data] by (auto simp: fold_assign)

text \<open>
  C6. For an existing channel id and any partial input, \<open>update(id, partialInput)\<close>
  overwrites exactly the fields whose value is not \<open>undefined\<close> (a field set to \<open>null\<close> is
  applied, an \<open>undefined\<close> one is skipped), saves, emits \<open>sales_channel.updated\<close> with the
  id (the input, being a partial channel input, carries no id of its own) and returns the
  updated channel; for an absent id it fails with NotFound. The infrastructure does not
  fail. The witness is \<open>update(id, { name: undefined, description: "new" })\<close>.
\<close>

theorem update_overwrites_defined_fields:
  assumes "faults w = []"
  shows "(find (\<lambda>row. get row ''id'' = Str i \<and> \<not> soft_deleted row) (sales_channel (db w)) = Some sc \<longrightarrow>
           (\<exists>result w'. update i data w = (Inr result, w')
              \<and> (\<forall>k. get result k = (if get data k = Undefined then get sc k else get data k))
              \<and> sales_channel (db w') = upsert result (sales_channel (db w))
              \<and> staged_events (db w')
                  = staged_events (db w) @ [(''sales_channel.updated'', get result ''id'')]
              \<and> (get data ''id'' = Undefined \<longrightarrow> get result ''id'' = Str i)))
       \<and> (find (\<lambda>row. get row ''id'' = Str i \<and> \<not> soft_deleted row) (sales_channel (db w)) = None \<longrightarrow>
           (\<exists>w'. update i data w
                   = (Inl (MedusaError NOT_FOUND (''Sales channel with id '' @ i @ '' was not found'')), w')
              \<and> (\<not> transactionManager w \<longrightarrow> db w' = db w)))"
proof (intro conjI impI)
  assume found: "find (\<lambda>row. get row ''id'' = Str i \<and> \<not> soft_deleted row) (sales_channel (db w)) = Some sc"
  let ?result = "fold (\<lambda>key sc. if get data key \<noteq> Undefined
                                  then set_property sc key (get data key) else sc)
                   (Object_keys data) sc"
  from found have id: "get sc ''id'' = Str i"
    by (auto simp: find_Some_iff)
  then have hasid: "get ?result ''id'' \<noteq> Undefined"
    by (simp add: update_loop)
  have "\<exists>w'. update i data w = (Inr ?result, w')
          \<and> sales_channel (db w') = upsert ?result (sales_channel (db w))
          \<and> staged_events (db w')
              = staged_events (db w) @ [(''sales_channel.updated'', get ?result ''id'')]"
    using assms found hasid
    by (simp add: update_def retrieve_def promise_defs collaborator_defs Events_UPDATED_def)
  moreover have "\<forall>k. get ?result k = (if get data k = Undefined then get sc k else get data k)"
    by (simp add: update_loop)
  moreover have "get data ''id'' = Undefined \<longrightarrow> get ?result ''id'' = Str i"
    using id by (simp add: update_loop)
  ultimately show "\<exists>result w'. update i data w = (Inr result, w')
              \<and> (\<forall>k. get result k = (if get data k = Undefined then get sc k else get data k))
              \<and> sales_channel (db w') = upsert result (sales_channel (db w))
              \<and> staged_events (db w')
                  = staged_events (db w) @ [(''sales_channel.updated'', get result ''id'')]
              \<and> (get data ''id'' = Undefined \<longrightarrow> get result ''id'' = Str i)"
    by blast
next
  assume "find (\<lambda>row. get row ''id'' = Str i \<and> \<not> soft_deleted row) (sales_channel (db w)) = None"
  with assms show "\<exists>w'. update i data w
                   = (Inl (MedusaError NOT_FOUND (''Sales channel with id '' @ i @ '' was not found'')), w')
              \<and> (\<not> transactionManager w \<longrightarrow> db w' = db w)"
    by (simp add: update_def retrieve_def promise_defs collaborator_defs)
qed

theorem update_overwrites_defined_fields_witness:
  "(\<exists>result w'.
       update ''sc_1'' [(''name'', Undefined), (''description'', Str ''new'')] example_world
         = (Inr result, w')
     \<and> get result ''name'' = Str ''Web shop''
     \<and> get result ''description'' = Str ''new''
     \<and> get result ''is_disabled'' = Boolean False
     \<and> staged_events (db w') = [(''sales_channel.updated'', Str ''sc_1'')])
   \<and> (\<exists>w'. update ''sc_9'' [(''name'', Undefined), (''description'', Str ''new'')] example_world
              = (Inl (MedusaError NOT_FOUND ''Sales channel with id sc_9 was not found''), w')
          \<and> db w' = example_db)"
proof -
  let ?data = "[(''name'', Undefined), (''description'', Str ''new'')]"
  let ?sc = "hd (sales_channel example_db)"
  have h: "faults example_world = []" by (simp add: example_defs)
  have found: "find (\<lambda>row. get row ''id'' = Str ''sc_1'' \<and> \<not> soft_deleted row)
                 (sales_channel (db example_world)) = Some ?sc"
    by (simp add: example_defs get_def soft_deleted_def)
  have absent: "find (\<lambda>row. get row ''id'' = Str ''sc_9'' \<and> \<not> soft_deleted row)
                 (sales_channel (db example_world)) = None"
    by (simp add: example_defs get_def soft_deleted_def)
  have top: "\<not> transactionManager example_world" "db example_world = example_db"
    "staged_events (db example_world) = []"
    by (simp_all add: example_defs)
  from update_overwrites_defined_fields [OF h, of "''sc_1''" ?sc ?data] found
  obtain result w' where
    r: "update ''sc_1'' ?data example_world = (Inr result, w')"
       "\<forall>k. get result k = (if get ?data k = Undefined then get ?sc k else get ?data k)"
       "staged_events (db w')
          = staged_events (db example_world) @ [(''sales_channel.updated'', get result ''id'')]"
    by blast
  from r(2) have fields: "get result ''name'' = Str ''Web shop''" "get result ''description'' = Str ''new''"
    "get result ''is_disabled'' = Boolean False" "get result ''id'' = Str ''sc_1''"
    by (simp_all add: get_def example_defs)
  from r(3) fields(4) top(3)
  have ev: "staged_events (db w') = [(''sales_channel.updated'', Str ''sc_1'')]" by simp
  from update_overwrites_defined_fields [OF h, of "''sc_9''" ?sc ?data] absent top(1,2)
  have nf: "\<exists>w'. update ''sc_9'' ?data example_world
              = (Inl (MedusaError NOT_FOUND ''Sales channel with id sc_9 was not found''), w')
          \<and> db w' = example_db"
    by simp
  from r(1) fields(1-3) ev nf show ?thesis by blast
qed


section \<open>Deleting a channel\<close>

text \<open>
  C8. \<open>delete\<close> is idempotent on absent ids: for an id that does not resolve to an existing
  channel, \<open>delete(id)\<close> returns without error, changes nothing and emits no event (its only
  external call is the retrieval). For an existing channel (and an infrastructure that
  does not fail) it soft-removes the channel: the row stays in the table, marked with its
  deletion time, and a \<open>sales_channel.deleted\<close> event carrying the id is emitted.
\<close>

theorem delete_idempotent_soft_remove:
  "(find (\<lambda>row. get row ''id'' = Str i \<and> \<not> soft_deleted row) (sales_channel (db w)) = None \<longrightarrow>
      (\<exists>w'. delete i w = (Inr (), w') \<and> db w' = db w \<and> calls w' = calls w @ [FindOne i]))
   \<and> (faults w = []
       \<and> find (\<lambda>row. get row ''id'' = Str i \<and> \<not> soft_deleted row) (sales_channel (db w)) = Some sc \<longrightarrow>
      (\<exists>w'. delete i w = (Inr (), w')
         \<and> sales_channel (db w')
             = map (\<lambda>row. if get row ''id'' = Str i
                           then set_property row ''deleted_at'' (Date (clock w)) else row)
                   (sales_channel (db w))
         \<and> map (\<lambda>row. get row ''id'') (sales_channel (db w'))
             = map (\<lambda>row. get row ''id'') (sales_channel (db w))
         \<and> (\<forall>row \<in> set (sales_channel (db w')). get row ''id'' = Str i \<longrightarrow> soft_deleted row)
         \<and> staged_events (db w') = staged_events (db w) @ [(''sales_channel.deleted'', Str i)]))"
proof (intro conjI impI)
  assume "find (\<lambda>row. get row ''id'' = Str i \<and> \<not> soft_deleted row) (sales_channel (db w)) = None"
  then show "\<exists>w'. delete i w = (Inr (), w') \<and> db w' = db w \<and> calls w' = calls w @ [FindOne i]"
    by (simp add: delete_def retrieve_def promise_defs collaborator_defs
        split: list.splits option.splits)
next
  assume h: "faults w = []
    \<and> find (\<lambda>row. get row ''id'' = Str i \<and> \<not> soft_deleted row) (sales_channel (db w)) = Some sc"
  let ?rows = "map (\<lambda>row. if get row ''id'' = Str i
                           then set_property row ''deleted_at'' (Date (clock w)) else row)
                   (sales_channel (db w))"
  from h have "get sc ''id'' = Str i" by (auto simp: find_Some_iff)
  with h have run: "\<exists>w'. delete i w = (Inr (), w') \<and> sales_channel (db w') = ?rows
         \<and> staged_events (db w') = staged_events (db w) @ [(''sales_channel.deleted'', Str i)]"
    by (simp add: delete_def retrieve_def promise_defs collaborator_defs Events_DELETED_def)
  have ids: "map (\<lambda>row. get row ''id'') ?rows = map (\<lambda>row. get row ''id'') (sales_channel (db w))"
    by (simp add: get_set_property)
  have marked: "\<forall>row \<in> set ?rows. get row ''id'' = Str i \<longrightarrow> soft_deleted row"
    by (auto simp: soft_deleted_def get_set_property)
  from run ids marked
  show "\<exists>w'. delete i w = (Inr (), w')
         \<and> sales_channel (db w') = ?rows
         \<and> map (\<lambda>row. get row ''id'') (sales_channel (db w'))
             = map (\<lambda>row. get row ''id'') (sales_channel (db w))
         \<and> (\<forall>row \<in> set (sales_channel (db w')). get row ''id'' = Str i \<longrightarrow> soft_deleted row)
         \<and> staged_events (db w') = staged_events (db w) @ [(''sales_channel.deleted'', Str i)]"
    by auto
qed

theorem delete_idempotent_soft_remove_witness:
  "(\<exists>w'. delete ''sc_9'' example_world = (Inr (), w') \<and> db w' = example_db
          \<and> calls w' = [FindOne ''sc_9''])
   \<and> (\<exists>w'. delete ''sc_1'' example_world = (Inr (), w')
          \<and> sales_channel (db w')
              = [[(''id'', Str ''sc_1''), (''name'', Str ''Web shop''), (''description'', Null),
                  (''is_disabled'', Boolean False), (''deleted_at'', Date 7)]]
          \<and> staged_events (db w') = [(''sales_channel.deleted'', Str ''sc_1'')])"
proof -
  let ?sc = "hd (sales_channel example_db)"
  have found: "faults example_world = []
     \<and> find (\<lambda>row. get row ''id'' = Str ''sc_1'' \<and> \<not> soft_deleted row)
         (sales_channel (db example_world)) = Some ?sc"
    by (simp add: example_defs get_def soft_deleted_def)
  have absent: "find (\<lambda>row. get row ''id'' = Str ''sc_9'' \<and> \<not> soft_deleted row)
                 (sales_channel (db example_world)) = None"
    by (simp add: example_defs get_def soft_deleted_def)
  have ex: "db example_world = example_db" "calls example_world = []" "clock example_world = 7"
    "staged_events (db example_world) = []"
    "map (\<lambda>row. if get row ''id'' = Str ''sc_1''
                 then set_property row ''deleted_at'' (Date 7) else row)
         (sales_channel (db example_world))
     = [[(''id'', Str ''sc_1''), (''name'', Str ''Web shop''), (''description'', Null),
         (''is_disabled'', Boolean False), (''deleted_at'', Date 7)]]"
    by (simp_all add: example_defs get_def set_property_def)
  from delete_idempotent_soft_remove [of "''sc_9''" example_world ?sc] absent ex(1,2)
  have a: "\<exists>w'. delete ''sc_9'' example_world = (Inr (), w') \<and> db w' = example_db
          \<and> calls w' = [FindOne ''sc_9'']"
    by simp
  from delete_idempotent_soft_remove [of "''sc_1''" example_world ?sc] found ex(3,4,5)
  have b: "\<exists>w'. delete ''sc_1'' example_world = (Inr (), w')
          \<and> sales_channel (db w')
              = [[(''id'', Str ''sc_1''), (''name'', Str ''Web shop''), (''description'', Null),
                  (''is_disabled'', Boolean False), (''deleted_at'', Date 7)]]
          \<and> staged_events (db w') = [(''sales_channel.deleted'', Str ''sc_1'')]"
    by auto
  from a b show ?thesis by blast
qed

section \<open>The default channel\<close>

lemma default_input_no_id:
  "get [(''description'', Str ''Created by Medusa''), (''name'', Str ''Default Sales Channel''),
        (''is_disabled'', Boolean False)] ''id'' = Undefined"
  by (simp add: get_def)

lemma find_fresh_append:
  "Str i \<notin> set (map (\<lambda>row. get row ''id'') rows) \<Longrightarrow> get ch ''id'' = Str i \<Longrightarrow>
   find (\<lambda>row. get row ''id'' = Str i) (rows @ [ch]) = Some ch"
  by (induction rows) auto

lemma createDefault_first:
  assumes "faults w = []" "\<not> truthy (store (db w))"
    and "Str (id_source w (id_count w)) \<notin> set (map (\<lambda>row. get row ''id'') (sales_channel (db w)))"
  shows "\<exists>w1. createDefault w
               = (Inr (Some [(''description'', Str ''Created by Medusa''),
                             (''name'', Str ''Default Sales Channel''),
                             (''is_disabled'', Boolean False),
                             (''id'', Str (id_source w (id_count w)))]), w1)
      \<and> faults w1 = []
      \<and> sales_channel (db w1)
          = sales_channel (db w) @ [[(''description'', Str ''Created by Medusa''),
                                     (''name'', Str ''Default Sales Channel''),
                                     (''is_disabled'', Boolean False),
                                     (''id'', Str (id_source w (id_count w)))]]
      \<and> store (db w1) = Str (id_source w (id_count w))"
  using assms
  by (simp add: createDefault_def create_def promise_defs collaborator_defs upsert_def
      set_property_def get_def)

lemma createDefault_again:
  assumes "faults w = []" "truthy (store (db w))"
  shows "createDefault w
         = (Inr (find (\<lambda>row. get row ''id'' = store (db w)) (sales_channel (db w))),
            w\<lparr>calls := calls w @ [StoreRetrieve]\<rparr>)"
  using assms
  by (simp add: createDefault_def promise_defs collaborator_defs)

text \<open>
  C7. \<open>createDefault()\<close> is idempotent under non-concurrent calls. Given a Store whose
  \<open>default_sales_channel_id\<close> is \<open>null\<close>, the first call creates exactly one channel, named
  "Default Sales Channel", described "Created by Medusa", with \<open>is_disabled = false\<close>,
  sets the Store's pointer to it and returns it; a second call returns the same channel
  and changes nothing. (The infrastructure does not fail; the id generator yields a
  non-empty id that no row has.)
\<close>

theorem createDefault_idempotent:
  assumes "faults w = []" and "store (db w) = Null"
    and "id_source w (id_count w) \<noteq> []"
    and "Str (id_source w (id_count w)) \<notin> set (map (\<lambda>row. get row ''id'') (sales_channel (db w)))"
  shows "\<exists>ch w1 w2. createDefault w = (Inr (Some ch), w1)
      \<and> get ch ''name'' = Str ''Default Sales Channel''
      \<and> get ch ''description'' = Str ''Created by Medusa''
      \<and> get ch ''is_disabled'' = Boolean False
      \<and> sales_channel (db w1) = sales_channel (db w) @ [ch]
      \<and> store (db w1) = get ch ''id''
      \<and> createDefault w1 = (Inr (Some ch), w2)
      \<and> db w2 = db w1"
proof -
  let ?i = "id_source w (id_count w)"
  let ?ch = "[(''description'', Str ''Created by Medusa''), (''name'', Str ''Default Sales Channel''),
              (''is_disabled'', Boolean False), (''id'', Str ?i)]"
  have nodefault: "\<not> truthy (store (db w))" using assms(2) by simp
  obtain w1 where w1: "createDefault w = (Inr (Some ?ch), w1)" "faults w1 = []"
    "sales_channel (db w1) = sales_channel (db w) @ [?ch]" "store (db w1) = Str ?i"
    using createDefault_first [OF assms(1) nodefault assms(4)] by blast
  have id: "get ?ch ''id'' = Str ?i" by (simp add: get_def)
  have pointer: "truthy (store (db w1))" using w1(4) assms(3) by simp
  have "find (\<lambda>row. get row ''id'' = store (db w1)) (sales_channel (db w1)) = Some ?ch"
    using find_fresh_append [OF assms(4) id] w1(3,4) by simp
  then have second: "createDefault w1 = (Inr (Some ?ch), w1\<lparr>calls := calls w1 @ [StoreRetrieve]\<rparr>)"
    using createDefault_again [OF w1(2) pointer] by simp
  have fields: "get ?ch ''name'' = Str ''Default Sales Channel''"
    "get ?ch ''description'' = Str ''Created by Medusa''"
    "get ?ch ''is_disabled'' = Boolean False"
    by (simp_all add: get_def)
  show ?thesis
    using w1(1,3,4) id second fields
    by (intro exI [of _ ?ch] exI [of _ w1] exI [of _ "w1\<lparr>calls := calls w1 @ [StoreRetrieve]\<rparr>"])
       simp
qed

theorem createDefault_idempotent_witness:
  "\<exists>ch w1 w2. createDefault example_world = (Inr (Some ch), w1)
      \<and> get ch ''name'' = Str ''Default Sales Channel''
      \<and> get ch ''description'' = Str ''Created by Medusa''
      \<and> get ch ''is_disabled'' = Boolean False
      \<and> sales_channel (db w1) = sales_channel (db example_world) @ [ch]
      \<and> store (db w1) = get ch ''id''
      \<and> createDefault w1 = (Inr (Some ch), w2)
      \<and> db w2 = db w1"
proof -
  have h1: "faults example_world = []" by (simp add: example_defs)
  have h2: "store (db example_world) = Null" by (simp add: example_defs)
  have h3: "id_source example_world (id_count example_world) \<noteq> []" by (simp add: example_defs)
  have h4: "Str (id_source example_world (id_count example_world))
              \<notin> set (map (\<lambda>row. get row ''id'') (sales_channel (db example_world)))"
    by (simp add: example_defs get_def)
  show ?thesis by (rule createDefault_idempotent [OF h1 h2 h3 h4])
qed

text \<open>
  C10. Whenever \<open>createDefault()\<close> takes its creation branch (the Store has no
  \<open>default_sales_channel_id\<close>), a \<open>sales_channel.created\<close> event is emitted within the same
  unit of work, because the default channel is created through \<open>create\<close>: whenever
  \<open>createDefault\<close> returns a channel, the event has been emitted and staged; whenever it
  fails, even after the creation, nothing remains of it; and the event is the one an
  explicit \<open>create\<close> of the same input stages. (The call comes from
  outside any unit of work.)
\<close>

theorem createDefault_emits_created:
  assumes "\<not> transactionManager w" and "\<not> truthy (store (db w))"
  shows "(\<forall>r w'. createDefault w = (Inr r, w') \<longrightarrow>
            (\<exists>ch payload. r = Some ch
               \<and> staged_events (db w')
                   = staged_events (db w) @ [(''sales_channel.created'', payload)]
               \<and> Emit ''sales_channel.created'' payload \<in> set (calls w')))
       \<and> (\<forall>e w'. createDefault w = (Inl e, w') \<longrightarrow> db w' = db w)
       \<and> (faults w = [] \<longrightarrow>
            (\<exists>r w'. createDefault w = (Inr r, w'))
            \<and> staged_events (db (snd (createDefault w)))
                = staged_events (db (snd (create [(''description'', Str ''Created by Medusa''),
                                                   (''name'', Str ''Default Sales Channel''),
                                                   (''is_disabled'', Boolean False)] w))))"
proof -
  have emitted: "\<forall>r w'. createDefault w = (Inr r, w') \<longrightarrow>
            (\<exists>ch payload. r = Some ch
               \<and> staged_events (db w')
                   = staged_events (db w) @ [(''sales_channel.created'', payload)]
               \<and> Emit ''sales_channel.created'' payload \<in> set (calls w'))"
    using assms(2)
    by (auto simp add: createDefault_def create_def promise_defs collaborator_defs
        Events_CREATED_def default_input_no_id split: list.splits option.splits)
  have undone: "\<forall>e w'. createDefault w = (Inl e, w') \<longrightarrow> db w' = db w"
    using assms
    by (auto simp add: createDefault_def create_def promise_defs collaborator_defs
        default_input_no_id split: list.splits option.splits)
  have same: "faults w = [] \<longrightarrow>
            (\<exists>r w'. createDefault w = (Inr r, w'))
            \<and> staged_events (db (snd (createDefault w)))
                = staged_events (db (snd (create [(''description'', Str ''Created by Medusa''),
                                                   (''name'', Str ''Default Sales Channel''),
                                                   (''is_disabled'', Boolean False)] w)))"
    using assms
    by (simp add: createDefault_def create_def promise_defs collaborator_defs default_input_no_id)
  from emitted undone same show ?thesis by blast
qed

theorem createDefault_emits_created_witness:
  "(\<exists>ch payload w'. createDefault example_world = (Inr (Some ch), w')
        \<and> get ch ''name'' = Str ''Default Sales Channel''
        \<and> staged_events (db w') = [(''sales_channel.created'', payload)]
        \<and> Emit ''sales_channel.created'' payload \<in> set (calls w')
        \<and> staged_events (db w')
            = staged_events (db (snd (create [(''description'', Str ''Created by Medusa''),
                                               (''name'', Str ''Default Sales Channel''),
                                               (''is_disabled'', Boolean False)] example_world))))
   \<and> (\<exists>w'. createDefault (example_world\<lparr>faults := [None, None, None, Some (Error ''store unavailable'')]\<rparr>)
              = (Inl (Error ''store unavailable''), w')
          \<and> db w' = example_db)"
proof -
  let ?wf = "example_world\<lparr>faults := [None, None, None, Some (Error ''store unavailable'')]\<rparr>"
  let ?ch = "[(''description'', Str ''Created by Medusa''), (''name'', Str ''Default Sales Channel''),
              (''is_disabled'', Boolean False), (''id'', Str ''sc_2'')]"
  have h1: "\<not> transactionManager example_world" by (simp add: example_defs)
  have h2: "\<not> truthy (store (db example_world))" by (simp add: example_defs)
  have g1: "\<not> transactionManager ?wf" by (simp add: example_defs)
  have g2: "\<not> truthy (store (db ?wf))" by (simp add: example_defs)
  have ex: "staged_events (db example_world) = []" "db ?wf = example_db"
    "faults example_world = []"
    by (simp_all add: example_defs)
  have ok: "fst (createDefault example_world) = Inr (Some ?ch)"
    by (simp add: createDefault_def create_def promise_defs collaborator_defs example_defs
        set_property_def get_def)
  then have run: "createDefault example_world = (Inr (Some ?ch), snd (createDefault example_world))"
    by (metis prod.collapse)
  have name: "get ?ch ''name'' = Str ''Default Sales Channel''" by (simp add: get_def)
  note T = createDefault_emits_created [OF h1 h2]
  from T run obtain payload where
    ev: "staged_events (db (snd (createDefault example_world)))
              = staged_events (db example_world) @ [(''sales_channel.created'', payload)]"
        "Emit ''sales_channel.created'' payload \<in> set (calls (snd (createDefault example_world)))"
    by blast
  from T ex(3) have same: "staged_events (db (snd (createDefault example_world)))
            = staged_events (db (snd (create [(''description'', Str ''Created by Medusa''),
                                               (''name'', Str ''Default Sales Channel''),
                                               (''is_disabled'', Boolean False)] example_world)))"
    by blast
  from run name ev ex(1) same
  have a: "\<exists>ch payload w'. createDefault example_world = (Inr (Some ch), w')
        \<and> get ch ''name'' = Str ''Default Sales Channel''
        \<and> staged_events (db w') = [(''sales_channel.created'', payload)]
        \<and> Emit ''sales_channel.created'' payload \<in> set (calls w')
        \<and> staged_events (db w')
            = staged_events (db (snd (create [(''description'', Str ''Created by Medusa''),
                                               (''name'', Str ''Default Sales Channel''),
                                               (''is_disabled'', Boolean False)] example_world)))"
    by (intro exI [of _ ?ch] exI [of _ payload] exI [of _ "snd (createDefault example_world)"]) simp
  have "fst (createDefault ?wf) = Inl (Error ''store unavailable'')"
    by (simp add: createDefault_def create_def promise_defs collaborator_defs example_defs get_def)
  then have "createDefault ?wf = (Inl (Error ''store unavailable''), snd (createDefault ?wf))"
    by (metis prod.collapse)
  with createDefault_emits_created [OF g1 g2] ex(2)
  have b: "\<exists>w'. createDefault ?wf = (Inl (Error ''store unavailable''), w') \<and> db w' = example_db"
    by metis
  from a b show ?thesis by blast
qed

section \<open>Which errors are swallowed\<close>

text \<open>
  An operation is quiet when returning normally means that no error was raised while it
  ran. Every building block is quiet, and sequencing and the unit of work keep it so; only
  \<open>catch_void\<close> does not.
\<close>

lemma resolve_quiet: "resolve x w = (Inr r, w') \<Longrightarrow> raised w' = raised w"
  by (auto simp: resolve_def)

lemma io_quiet: "io c stmt w = (Inr r, w') \<Longrightarrow> raised w' = raised w"
  by (auto simp: io_def run_def split: list.splits option.splits sum.splits prod.splits)

lemma await_quiet:
  assumes "\<And>w r w'. p w = (Inr r, w') \<Longrightarrow> raised w' = raised w"
    and "\<And>x w r w'. k x w = (Inr r, w') \<Longrightarrow> raised w' = raised w"
    and "await p k w = (Inr r, w')"
  shows "raised w' = raised w"
proof (cases "p w")
  case (Pair res w1)
  show ?thesis
  proof (cases res)
    case (Inl e)
    with Pair assms(3) show ?thesis by (simp add: await_def)
  next
    case (Inr x)
    with Pair assms(3) have "k x w1 = (Inr r, w')" by (simp add: await_def)
    then have "raised w' = raised w1" by (rule assms(2))
    moreover from Pair Inr have "raised w1 = raised w" by (auto intro: assms(1))
    ultimately show ?thesis by simp
  qed
qed

lemma atomicPhase_quiet:
  assumes "\<And>w r w'. work w = (Inr r, w') \<Longrightarrow> raised w' = raised w"
    and "atomicPhase work errorHandler w = (Inr r, w')"
  shows "raised w' = raised w"
proof (cases "work (begin_work w)")
  case (Pair res w1)
  show ?thesis
  proof (cases res)
    case (Inl e)
    with Pair assms(2) show ?thesis
      by (auto simp: atomicPhase_def rethrow_def split: option.splits prod.splits sum.splits)
  next
    case (Inr x)
    with Pair have "raised w1 = raised (begin_work w)" by (auto intro: assms(1))
    with Pair Inr assms(2) show ?thesis
      by (auto simp: atomicPhase_def commit_def begin_work_def)
  qed
qed

lemma findOne_quiet: "salesChannelRepo_findOne i w = (Inr r, w') \<Longrightarrow> raised w' = raised w"
  unfolding salesChannelRepo_findOne_def by (rule io_quiet)

lemma save_quiet: "salesChannelRepo_save sc w = (Inr r, w') \<Longrightarrow> raised w' = raised w"
  unfolding salesChannelRepo_save_def by (auto dest!: io_quiet split: if_splits)

lemma softRemove_quiet: "salesChannelRepo_softRemove sc w = (Inr r, w') \<Longrightarrow> raised w' = raised w"
  unfolding salesChannelRepo_softRemove_def by (rule io_quiet)

lemma emit_quiet: "eventBusService_emit n i w = (Inr r, w') \<Longrightarrow> raised w' = raised w"
  unfolding eventBusService_emit_def by (rule io_quiet)

lemma store_retrieve_quiet: "storeService_retrieve w = (Inr r, w') \<Longrightarrow> raised w' = raised w"
  unfolding storeService_retrieve_def by (rule io_quiet)

lemma store_update_quiet: "storeService_update i w = (Inr r, w') \<Longrightarrow> raised w' = raised w"
  unfolding storeService_update_def by (rule io_quiet)

lemma repo_create_quiet: "salesChannelRepo_create data w = (Inr r, w') \<Longrightarrow> raised w' = raised w"
  by (auto simp: salesChannelRepo_create_def resolve_def)

lemma repo_addProducts_quiet:
  "SalesChannelRepository_addProducts i pids w = (Inr r, w') \<Longrightarrow> raised w' = raised w"
  unfolding SalesChannelRepository_addProducts_def execute_insert_def
  by (auto dest: io_quiet resolve_quiet split: if_splits)

lemma retrieve_quiet: "retrieve i w = (Inr r, w') \<Longrightarrow> raised w' = raised w"
  unfolding retrieve_def
  by (erule atomicPhase_quiet [rotated], erule await_quiet [rotated 2])
     (auto dest: findOne_quiet resolve_quiet simp: reject_def split: option.splits)

lemma create_quiet: "create data w = (Inr r, w') \<Longrightarrow> raised w' = raised w"
  unfolding create_def
  by (erule atomicPhase_quiet [rotated], erule await_quiet [rotated 2], erule repo_create_quiet,
      erule await_quiet [rotated 2], erule emit_quiet, erule save_quiet)

lemma update_quiet: "update i data w = (Inr r, w') \<Longrightarrow> raised w' = raised w"
  unfolding update_def
  by (erule atomicPhase_quiet [rotated], erule await_quiet [rotated 2], erule retrieve_quiet,
      erule await_quiet [rotated 2], erule save_quiet,
      erule await_quiet [rotated 2], erule emit_quiet, erule resolve_quiet)

lemma createDefault_quiet: "createDefault w = (Inr r, w') \<Longrightarrow> raised w' = raised w"
  unfolding createDefault_def
  apply (erule atomicPhase_quiet [rotated], erule await_quiet [rotated 2], erule store_retrieve_quiet)
  apply (simp split: if_splits)
   apply (erule resolve_quiet)
  apply (erule await_quiet [rotated 2], erule create_quiet)
  apply (erule await_quiet [rotated 2], erule store_update_quiet, erule resolve_quiet)
  done

lemma addProducts_quiet: "addProducts f i pids w = (Inr r, w') \<Longrightarrow> raised w' = raised w"
  unfolding addProducts_def
  by (erule atomicPhase_quiet [rotated], erule await_quiet [rotated 2], erule repo_addProducts_quiet,
      erule retrieve_quiet)

lemma retrieve_raises_once:
  "retrieve i w = (Inl e, w1) \<Longrightarrow> raised w1 = raised w @ [e]"
  by (auto simp: retrieve_def promise_defs collaborator_defs
      split: list.splits option.splits if_splits)

lemma delete_swallows:
  "retrieve i (begin_work w) = (Inl e, w1) \<Longrightarrow> delete i w = (Inr (), commit w w1)"
  by (simp add: delete_def atomicPhase_def await_def catch_void_def resolve_def)

lemma delete_quiet_or_retrieval:
  assumes "delete i w = (Inr (), w')"
  shows "raised w' = raised w
       \<or> (\<exists>e w1. retrieve i (begin_work w) = (Inl e, w1) \<and> w' = commit w w1
              \<and> raised w' = raised w @ [e])"
proof (cases "retrieve i (begin_work w)")
  case (Pair res w1)
  show ?thesis
  proof (cases res)
    case (Inl e)
    with Pair have r: "retrieve i (begin_work w) = (Inl e, w1)" by simp
    from delete_swallows [OF r] assms have "w' = commit w w1" by simp
    moreover from retrieve_raises_once [OF r] have "raised w1 = raised w @ [e]"
      by (simp add: begin_work_def)
    ultimately show ?thesis using r by (auto simp: commit_def)
  next
    case (Inr sc)
    with Pair have r: "retrieve i (begin_work w) = (Inr sc, w1)" by simp
    then have q1: "raised w1 = raised w" by (auto dest: retrieve_quiet simp: begin_work_def)
    from assms r have "\<exists>w2. await (salesChannelRepo_softRemove sc) (\<lambda>_.
              await (eventBusService_emit Events_DELETED (Str i)) (\<lambda>_. resolve ())) w1 = (Inr (), w2)
            \<and> w' = commit w w2"
      by (auto simp: delete_def atomicPhase_def catch_void_def rethrow_def await_def [of "\<lambda>w. _ w"]
          split: prod.splits sum.splits)
    then obtain w2 where w2: "await (salesChannelRepo_softRemove sc) (\<lambda>_.
              await (eventBusService_emit Events_DELETED (Str i)) (\<lambda>_. resolve ())) w1 = (Inr (), w2)"
       and w': "w' = commit w w2" by blast
    have "raised w2 = raised w1"
      by (insert w2, erule await_quiet [rotated 2], erule softRemove_quiet,
          erule await_quiet [rotated 2], erule emit_quiet, erule resolve_quiet)
    with q1 w' show ?thesis by (simp add: commit_def)
  qed
qed

text \<open>
  C5, as amended. No error raised inside a service operation is silently swallowed,
  except in \<open>delete\<close>, where every failure of the retrieval (a not-found outcome, and just
  as well a storage error) is treated as success, and in the insert-ignore of the
  association store, where pairs that exist are skipped. Whenever \<open>retrieve\<close>, \<open>create\<close>,
  \<open>update\<close>, \<open>createDefault\<close>, \<open>addProducts\<close> or the bulk insert returns normally, no
  error was raised while it ran, so every failure reaches the caller; when \<open>delete\<close>
  returns normally, either no error was raised or the only one is the retrieval's.
\<close>

theorem errors_propagate_except_delete_retrieval:
  "(\<forall>i w r w'. retrieve i w = (Inr r, w') \<longrightarrow> raised w' = raised w)
 \<and> (\<forall>data w r w'. create data w = (Inr r, w') \<longrightarrow> raised w' = raised w)
 \<and> (\<forall>i data w r w'. update i data w = (Inr r, w') \<longrightarrow> raised w' = raised w)
 \<and> (\<forall>w r w'. createDefault w = (Inr r, w') \<longrightarrow> raised w' = raised w)
 \<and> (\<forall>f i pids w r w'. addProducts f i pids w = (Inr r, w') \<longrightarrow> raised w' = raised w)
 \<and> (\<forall>i pids w r w'. SalesChannelRepository_addProducts i pids w = (Inr r, w') \<longrightarrow>
        raised w' = raised w)
 \<and> (\<forall>t rows. set rows \<subseteq> set t \<longrightarrow> insert_orIgnore t rows = t)
 \<and> (\<forall>i w e w1. retrieve i (begin_work w) = (Inl e, w1) \<longrightarrow> delete i w = (Inr (), commit w w1))
 \<and> (\<forall>i w w'. delete i w = (Inr (), w') \<longrightarrow>
        raised w' = raised w
        \<or> (\<exists>e w1. retrieve i (begin_work w) = (Inl e, w1) \<and> w' = commit w w1
               \<and> raised w' = raised w @ [e]))"
  by (intro conjI allI impI)
     (erule retrieve_quiet create_quiet update_quiet createDefault_quiet addProducts_quiet
        repo_addProducts_quiet insert_orIgnore_absorb delete_swallows delete_quiet_or_retrieval)+

theorem errors_propagate_except_delete_retrieval_witness:
  "retrieve ''sc_1'' (begin_work faulty_world)
     = (Inl (QueryFailedError ''08006''),
        faulty_world\<lparr>transactionManager := True, calls := [FindOne ''sc_1''],
                      raised := [QueryFailedError ''08006''], faults := []\<rparr>)
   \<and> delete ''sc_1'' faulty_world
     = (Inr (), faulty_world\<lparr>calls := [FindOne ''sc_1''],
                              raised := [QueryFailedError ''08006''], faults := []\<rparr>)
   \<and> fst (create [(''name'', Str ''B2B'')] example_world)
     = Inr [(''name'', Str ''B2B''), (''id'', Str ''sc_2'')]
   \<and> raised (snd (create [(''name'', Str ''B2B'')] example_world)) = raised example_world
   \<and> insert_orIgnore [(''sc_1'', ''prod_1'')] [(''sc_1'', ''prod_1'')] = [(''sc_1'', ''prod_1'')]"
proof -
  let ?w1 = "faulty_world\<lparr>transactionManager := True, calls := [FindOne ''sc_1''],
                      raised := [QueryFailedError ''08006''], faults := []\<rparr>"
  have r: "retrieve ''sc_1'' (begin_work faulty_world) = (Inl (QueryFailedError ''08006''), ?w1)"
    by (simp add: retrieve_def promise_defs collaborator_defs example_defs)
  have c: "create [(''name'', Str ''B2B'')] example_world
           = (fst (create [(''name'', Str ''B2B'')] example_world),
              snd (create [(''name'', Str ''B2B'')] example_world))"
    by simp
  have f: "fst (create [(''name'', Str ''B2B'')] example_world)
           = Inr [(''name'', Str ''B2B''), (''id'', Str ''sc_2'')]"
    by (simp add: create_def promise_defs collaborator_defs example_defs set_property_def get_def)
  have s: "set [(''sc_1'', ''prod_1'')] \<subseteq> set [(''sc_1'', ''prod_1'')]" by simp
  note T = errors_propagate_except_delete_retrieval
  from T have T2: "\<forall>data w r w'. create data w = (Inr r, w') \<longrightarrow> raised w' = raised w"
    by (elim conjE)
  from T have T7: "\<forall>t rows. set rows \<subseteq> set t \<longrightarrow> insert_orIgnore t rows = (t :: (string \<times> string) list)"
    by (elim conjE)
  from T have T8: "\<forall>i w e w1. retrieve i (begin_work w) = (Inl e, w1) \<longrightarrow>
                     delete i w = (Inr (), commit w w1)"
    by (elim conjE)
  from T8 r have d: "delete ''sc_1'' faulty_world = (Inr (), commit faulty_world ?w1)"
    by blast
  from T2 c f have q: "raised (snd (create [(''name'', Str ''B2B'')] example_world)) = raised example_world"
    by metis
  from T7 s have i: "insert_orIgnore [(''sc_1'', ''prod_1'')] [(''sc_1'', ''prod_1'')] = [(''sc_1'', ''prod_1'')]"
    by blast
  from r d f q i show ?thesis
    by (simp add: commit_def example_defs)
qed

text \<open>
  C5 as stated fails: the channel \<open>sc_1\<close> exists, the retrieval inside \<open>delete\<close> fails with a
  storage error (the connection is lost), and \<open>delete\<close> returns normally, with the channel
  untouched and no event emitted.
\<close>

theorem delete_swallows_storage_error_counterexample:
  "fst (retrieve ''sc_1'' (begin_work faulty_world)) = Inl (QueryFailedError ''08006'')
   \<and> fst (delete ''sc_1'' faulty_world) = Inr ()
   \<and> raised (snd (delete ''sc_1'' faulty_world)) = [QueryFailedError ''08006'']
   \<and> db (snd (delete ''sc_1'' faulty_world)) = example_db
   \<and> fst (retrieve ''sc_1'' example_world) = Inr (hd (sales_channel example_db))"
  by (simp add: delete_def retrieve_def promise_defs collaborator_defs example_defs
      get_def soft_deleted_def)


end
